theory Spec2Isabelle
  imports Main
begin

section \<open>Daily Sugar Guidance: the reading classification and history engine\<close>

text \<open>
  A shallow embedding of \<^verbatim>\<open>app.py\<close>. The script is a Streamlit page: it reads and rewrites
  one CSV file, keeps the last classification in the session state, and prints messages.
  Here the CSV file, the session state and the clock are explicit arguments, and every
  function returns what the source returns or leaves behind.

  Python strings are \<^typ>\<open>string\<close>; a code point outside ASCII is written as its UTF-8 bytes.
  No function of the source measures a string, so the byte count is never observed.
\<close>

subsection \<open>Strings\<close>

definition red_circle :: string where
  "red_circle = [CHR 0xF0, CHR 0x9F, CHR 0x94, CHR 0xB4]"

definition green_circle :: string where
  "green_circle = [CHR 0xF0, CHR 0x9F, CHR 0x9F, CHR 0xA2]"

definition yellow_circle :: string where
  "yellow_circle = [CHR 0xF0, CHR 0x9F, CHR 0x9F, CHR 0xA1]"

definition cross_mark :: string where
  "cross_mark = [CHR 0xE2, CHR 0x9D, CHR 0x8C]"

definition police_light :: string where
  "police_light = [CHR 0xF0, CHR 0x9F, CHR 0x9A, CHR 0xA8]"

definition en_dash :: string where
  "en_dash = [CHR 0xE2, CHR 0x80, CHR 0x93]"

text \<open>
  \<^verbatim>\<open>str.lower()\<close>, on the characters the page can pass to it: the display names of the
  reading types are ASCII, and an ASCII capital is the only character it changes there.
\<close>

definition lower_char :: "char \<Rightarrow> char" where
  "lower_char c =
     (case map_of (zip ''ABCDEFGHIJKLMNOPQRSTUVWXYZ'' ''abcdefghijklmnopqrstuvwxyz'') c of
        Some l \<Rightarrow> l
      | None \<Rightarrow> c)"

definition lower :: "string \<Rightarrow> string" where
  "lower s = map lower_char s"

text \<open>The decimal numeral of an integer, as an f-string prints \<^verbatim>\<open>int(x)\<close>.\<close>

fun digits :: "nat \<Rightarrow> string" where
  "digits n =
     (if n < 10 then [''0123456789'' ! n]
      else digits (n div 10) @ [''0123456789'' ! (n mod 10)])"

declare digits.simps [simp del]

definition str_int :: "int \<Rightarrow> string" where
  "str_int i = (if i < 0 then CHR ''-'' # digits (nat (- i)) else digits (nat i))"

subsection \<open>Constants\<close>

datatype error = KeyError string | ValueError string

text \<open>A dictionary literal is an association list; subscripting a missing key raises.\<close>

definition getitem :: "(string \<times> 'v) list \<Rightarrow> string \<Rightarrow> error + 'v" where
  "getitem d k = (case map_of d k of None \<Rightarrow> Inl (KeyError k) | Some v \<Rightarrow> Inr v)"

definition READING_TYPES :: "(string \<times> string) list" where
  "READING_TYPES =
     [(''Fasting (Empty Stomach)'', ''fasting''),
      (''After Breakfast'', ''post_breakfast''),
      (''After Lunch'', ''post_lunch''),
      (''After Dinner'', ''post_dinner''),
      (''Random'', ''random'')]"

record threshold_band =
  low :: int
  normal_max :: int
  borderline_max :: int
  warning :: int

definition THRESHOLDS :: "(string \<times> threshold_band) list" where
  "THRESHOLDS =
     [(''fasting'', \<lparr>low = 70, normal_max = 100, borderline_max = 125, warning = 126\<rparr>),
      (''post_breakfast'', \<lparr>low = 80, normal_max = 140, borderline_max = 160, warning = 161\<rparr>),
      (''post_lunch'', \<lparr>low = 80, normal_max = 140, borderline_max = 160, warning = 161\<rparr>),
      (''post_dinner'', \<lparr>low = 80, normal_max = 140, borderline_max = 160, warning = 161\<rparr>),
      (''random'', \<lparr>low = 70, normal_max = 120, borderline_max = 140, warning = 141\<rparr>)]"

subsection \<open>The history file\<close>

text \<open>
  A data frame of the history file: its column names in order, and its rows. A row
  carries the three cells the page reads; \<open>reading_type = None\<close> is a missing cell (NaN),
  which is what every row of a file without that column has. The store is the file at
  \<^verbatim>\<open>CSV_PATH\<close>: \<open>None\<close> when \<^verbatim>\<open>os.path.exists\<close> is false. Writing a frame and reading it
  back gives the same frame. The values of the \<^verbatim>\<open>sugar\<close> column are integers, as
  \<^verbatim>\<open>st.number_input\<close> with an integer step produces them; \<^verbatim>\<open>pd.read_csv\<close> loads them as
  64-bit signed cells, whose arithmetic wraps around.
\<close>

record row =
  datetime :: string
  reading_type :: "string option"
  sugar :: int

record frame =
  columns :: "string list"
  rows :: "row list"

type_synonym store = "frame option"

definition new_data :: "string \<Rightarrow> string \<Rightarrow> int \<Rightarrow> frame" where
  "new_data timestamp rtype sugar_value =
     \<lparr>columns = [''datetime'', ''reading_type'', ''sugar''],
      rows = [\<lparr>datetime = timestamp, reading_type = Some rtype, sugar = sugar_value\<rparr>]\<rparr>"

text \<open>
  The backwards-compatibility step every reader of the file repeats:
  \<^verbatim>\<open>if "reading_type" not in data.columns: data["reading_type"] = "random"\<close>.
  Assigning a scalar to a new column appends the column and fills every row.
\<close>

definition add_reading_type :: "frame \<Rightarrow> frame" where
  "add_reading_type data =
     (if ''reading_type'' \<notin> set (columns data)
      then data\<lparr>columns := columns data @ [''reading_type''],
                rows := map (\<lambda>r. r\<lparr>reading_type := Some ''random''\<rparr>) (rows data)\<rparr>
      else data)"

text \<open>\<^verbatim>\<open>pd.concat([a, b], ignore_index=True)\<close>: the union of the columns in order of first
  appearance, the rows of \<open>a\<close> followed by the rows of \<open>b\<close>.\<close>

definition pd_concat :: "frame \<Rightarrow> frame \<Rightarrow> frame" where
  "pd_concat a b =
     \<lparr>columns = columns a @ filter (\<lambda>c. c \<notin> set (columns a)) (columns b),
      rows = rows a @ rows b\<rparr>"

text \<open>\<^verbatim>\<open>save_sugar_history\<close>; the first argument is \<^verbatim>\<open>datetime.now()\<close>, formatted.\<close>

definition save_sugar_history :: "string \<Rightarrow> int \<Rightarrow> string \<Rightarrow> store \<Rightarrow> store" where
  "save_sugar_history timestamp sugar_value rtype st =
     (case st of
        Some old_data \<Rightarrow>
          Some (pd_concat (add_reading_type old_data) (new_data timestamp rtype sugar_value))
      | None \<Rightarrow> Some (new_data timestamp rtype sugar_value))"

text \<open>\<^verbatim>\<open>DataFrame.tail(n)\<close>: no row for \<open>n = 0\<close>, the last \<open>n\<close> rows for a positive \<open>n\<close> (all
  of them when there are fewer), all but the first \<open>-n\<close> rows for a negative \<open>n\<close>.\<close>

definition tail :: "int \<Rightarrow> frame \<Rightarrow> frame" where
  "tail n data =
     data\<lparr>rows :=
       (if n = 0 then []
        else if 0 < n then drop (length (rows data) - nat n) (rows data)
        else drop (nat (- n)) (rows data))\<rparr>"

definition get_history_data :: "int \<Rightarrow> store \<Rightarrow> frame" where
  "get_history_data limit st =
     (case st of
        None \<Rightarrow> \<lparr>columns = [], rows = []\<rparr>
      | Some data \<Rightarrow> tail limit (add_reading_type data))"

subsection \<open>Smart insight\<close>

text \<open>The value of a 64-bit signed cell: \<^verbatim>\<open>numpy.int64\<close> arithmetic keeps the low 64 bits
  of a result and reads them in two's complement.\<close>

definition int64 :: "int \<Rightarrow> int" where
  "int64 x = (x + 2 ^ 63) mod 2 ^ 64 - 2 ^ 63"

text \<open>The body of \<^verbatim>\<open>get_smart_insight\<close>: the text it returns, and the frame it holds in
  \<^verbatim>\<open>data\<close> when it returns (\<open>None\<close> when it returns before reading the file).\<close>

definition insight_run :: "string \<Rightarrow> store \<Rightarrow> string \<times> frame option" where
  "insight_run rtype st =
     (case st of
        None \<Rightarrow> (''No history available yet.'', None)
      | Some csv_data \<Rightarrow>
          (let data = add_reading_type csv_data in
           (if length (rows data) < 2
            then ''This is your first entry. Add more daily values to see comparisons.''
            else
              (let today_value = sugar (rows data ! (length (rows data) - 1));
                   yesterday_value = sugar (rows data ! (length (rows data) - 2))
               in if today_value < yesterday_value
                  then ''Good progress. Today's sugar is lower than yesterday by ''
                         @ str_int (int64 (yesterday_value - today_value)) @ '' mg/dL.''
                  else if today_value > yesterday_value
                  then ''Attention needed. Today's sugar is higher than yesterday by ''
                         @ str_int (int64 (today_value - yesterday_value)) @ '' mg/dL.''
                  else ''Your sugar level is the same as yesterday. Maintain your routine.''),
            Some data)))"

definition get_smart_insight :: "string \<Rightarrow> store \<Rightarrow> string" where
  "get_smart_insight rtype st = fst (insight_run rtype st)"

subsection \<open>Sugar trend\<close>

text \<open>The body of the colour loop of \<^verbatim>\<open>show_sugar_trend\<close>.\<close>

definition bar_color :: "int \<Rightarrow> string" where
  "bar_color val =
     (if val < 70 then ''red''
      else if 70 \<le> val \<and> val \<le> 100 then ''green''
      else if 100 < val \<and> val \<le> 125 then ''orange''
      else ''red'')"

text \<open>What \<^verbatim>\<open>show_sugar_trend\<close> leaves: an info message and no figure, or the bar chart
  (the colours, the heights and the tick labels of its bars).\<close>

datatype trend = Info string | Figure (colors: "string list") (heights: "int list") (ticklabels: "string list")

definition show_sugar_trend :: "string option \<Rightarrow> store \<Rightarrow> trend" where
  "show_sugar_trend filter_type st =
     (case st of
        None \<Rightarrow> Info ''No data available to show trends.''
      | Some csv_data \<Rightarrow>
          (let data0 = add_reading_type csv_data;
               data = (case filter_type of
                         None \<Rightarrow> data0
                       | Some f \<Rightarrow>
                           if f = [] then data0
                           else data0\<lparr>rows := filter (\<lambda>r. reading_type r = Some f) (rows data0)\<rparr>)
           in if length (rows data) < 2
              then Info ''Add more daily entries to see your sugar trend.''
              else
                (let recent_data = tail 7 data
                 in Figure (map bar_color (map sugar (rows recent_data)))
                      (map sugar (rows recent_data))
                      (map datetime (rows recent_data)))))"

subsection \<open>Submission\<close>

record result =
  res_sugar :: int
  status :: string
  color :: string
  meaning :: string
  diet_yes :: "string list"
  diet_no :: "string list"
  activity :: string
  focus :: string
  res_reading_type :: string
  res_reading_type_key :: string

text \<open>The band logic of the submit handler and the dictionary it stores as
  \<^verbatim>\<open>last_result\<close>, branch by branch.\<close>

definition classify :: "threshold_band \<Rightarrow> string \<Rightarrow> string \<Rightarrow> int \<Rightarrow> result" where
  "classify threshold reading_type_display reading_type_key sugar_value =
     (if sugar_value < 40 then
        \<lparr>res_sugar = sugar_value, status = ''CRITICAL LOW'', color = red_circle,
         meaning = ''Your blood sugar is dangerously low. Seek immediate medical help.'',
         diet_yes = [''Take a fast-acting sugar source immediately.''],
         diet_no = [],
         activity = ''Avoid any physical activity.'',
         focus = ''Restore blood sugar immediately.'',
         res_reading_type = reading_type_display, res_reading_type_key = reading_type_key\<rparr>
      else if sugar_value < low threshold then
        \<lparr>res_sugar = sugar_value, status = ''LOW'', color = red_circle,
         meaning = ''Your blood sugar is below the normal range for ''
                     @ lower reading_type_display @ ''.'',
         diet_yes = [''Take a quick sugar source such as juice or glucose.''],
         diet_no = [],
         activity = ''Avoid physical activity.'',
         focus = ''Restore blood sugar safely.'',
         res_reading_type = reading_type_display, res_reading_type_key = reading_type_key\<rparr>
      else if sugar_value \<le> normal_max threshold then
        \<lparr>res_sugar = sugar_value, status = ''NORMAL'', color = green_circle,
         meaning = ''Your blood sugar is within the healthy range for ''
                     @ lower reading_type_display @ ''.'',
         diet_yes = [''Continue balanced home-cooked meals.''],
         diet_no = [''Avoid excess sugar.''],
         activity = ''15'' @ en_dash @ ''20 minutes of light walking.'',
         focus = ''Maintain a healthy routine.'',
         res_reading_type = reading_type_display, res_reading_type_key = reading_type_key\<rparr>
      else if sugar_value \<le> borderline_max threshold then
        \<lparr>res_sugar = sugar_value, status = ''BORDERLINE'', color = yellow_circle,
         meaning = ''Your blood sugar is slightly elevated for ''
                     @ lower reading_type_display @ ''.'',
         diet_yes = [''Prefer light meals.''],
         diet_no = [''Reduce sugar and refined carbohydrates.''],
         activity = ''20 minutes of walking.'',
         focus = ''Improve sugar control.'',
         res_reading_type = reading_type_display, res_reading_type_key = reading_type_key\<rparr>
      else
        \<lparr>res_sugar = sugar_value, status = ''HIGH'', color = red_circle,
         meaning = ''Your blood sugar is high for '' @ lower reading_type_display
                     @ ''. Medical attention may be needed if this persists.'',
         diet_yes = [''Eat light, home-cooked meals.''],
         diet_no = [''Avoid sweets, sugary drinks, and high-carb foods.''],
         activity = ''25'' @ en_dash @ ''30 minutes of light to moderate walking.'',
         focus = ''Reduce sugar levels safely.'',
         res_reading_type = reading_type_display, res_reading_type_key = reading_type_key\<rparr>)"

text \<open>The session state, and what one run of the submit handler leaves: the file, the
  session state, the messages it printed and whether it ended in \<^verbatim>\<open>st.stop()\<close>.\<close>

record session_state =
  show_results :: bool
  last_result :: "result option"

datatype ui = St_error string | St_write string

record run =
  csv :: store
  session :: session_state
  shown :: "ui list"
  stopped :: bool

definition submit :: "string \<Rightarrow> string \<Rightarrow> int \<Rightarrow> store \<Rightarrow> session_state \<Rightarrow> error + run" where
  "submit now reading_type_display sugar_value st ss =
     (case getitem READING_TYPES reading_type_display of
        Inl e \<Rightarrow> Inl e
      | Inr reading_type_key \<Rightarrow>
          if sugar_value \<le> 0 then
            Inr \<lparr>csv = st, session = ss,
                 shown = [St_error (cross_mark
                            @ '' Invalid input: Blood sugar must be a positive value.'')],
                 stopped = True\<rparr>
          else
            (let saved = save_sugar_history now sugar_value reading_type_key st in
             if sugar_value < 40 then
               Inr \<lparr>csv = saved, session = ss,
                    shown = [St_error (police_light @ '' Critical Low Blood Sugar''),
                             St_write ''Take a fast-acting sugar source immediately and seek medical help.''],
                    stopped = True\<rparr>
             else if sugar_value > 400 then
               Inr \<lparr>csv = saved, session = ss,
                    shown = [St_error (police_light @ '' Extremely High Blood Sugar''),
                             St_write ''Seek medical attention immediately.''],
                    stopped = True\<rparr>
             else
               (case getitem THRESHOLDS reading_type_key of
                  Inl e \<Rightarrow> Inl e
                | Inr threshold \<Rightarrow>
                    Inr \<lparr>csv = saved,
                         session = \<lparr>show_results = True,
                                    last_result = Some (classify threshold reading_type_display
                                                          reading_type_key sugar_value)\<rparr>,
                         shown = [], stopped = False\<rparr>)))"

subsection \<open>Recent history\<close>

text \<open>The body of the status loop of the history section, and the section itself: the
  info message when \<^verbatim>\<open>history_data.empty\<close>; else the positional renaming of the columns
  to the three captions, which raises when the frame does not have three columns; then
  the rows of \<^verbatim>\<open>get_history_data(limit=10)\<close> with the inserted \<^verbatim>\<open>Status\<close> column. The
  captions themselves and the display names of the reading types are not modelled.\<close>

definition history_status :: "int \<Rightarrow> string" where
  "history_status sugar_val =
     (if sugar_val < 70 then red_circle @ '' Low''
      else if 70 \<le> sugar_val \<and> sugar_val \<le> 100 then green_circle @ '' Normal''
      else if 100 < sugar_val \<and> sugar_val \<le> 125 then yellow_circle @ '' Borderline''
      else red_circle @ '' High'')"

datatype history_view = No_history string | Table "(row \<times> string) list"

definition recent_history :: "store \<Rightarrow> error + history_view" where
  "recent_history st =
     (let history_data = get_history_data 10 st in
      if rows history_data = [] \<or> columns history_data = []
      then Inr (No_history
             ''No history available yet. Submit your first reading to get started!'')
      else if length (columns history_data) \<noteq> 3
      then Inl (ValueError (''Length mismatch: Expected axis has ''
                  @ str_int (int (length (columns history_data)))
                  @ '' elements, new values have 3 elements''))
      else Inr (Table (zip (rows history_data)
                         (map history_status (map sugar (rows history_data))))))"

text \<open>The readings of the log as every reader of the file loads them.\<close>

definition log_rows :: "store \<Rightarrow> row list" where
  "log_rows st = (case st of None \<Rightarrow> [] | Some data \<Rightarrow> rows (add_reading_type data))"

section \<open>Classification\<close>

lemma READING_TYPES_cases:
  assumes "map_of READING_TYPES d = Some c"
  shows "(d, c) \<in> {(''Fasting (Empty Stomach)'', ''fasting''),
      (''After Breakfast'', ''post_breakfast''),
      (''After Lunch'', ''post_lunch''),
      (''After Dinner'', ''post_dinner''),
      (''Random'', ''random'')}"
  using map_of_SomeD [OF assms] by (simp add: READING_TYPES_def)

text \<open>
  C1. With the reading type "Fasting (Empty Stomach)", the status the submit handler
  stores is LOW at 69, NORMAL at 70 and at 100, BORDERLINE at 101 and at 125, and HIGH at
  126, whatever the history file, the session state and the clock.
\<close>

theorem fasting_band_boundaries:
  "map (\<lambda>v. case submit now ''Fasting (Empty Stomach)'' v st ss of
              Inl e \<Rightarrow> None
            | Inr r \<Rightarrow> map_option status (last_result (session r)))
     [69, 70, 100, 101, 125, 126]
   = [Some ''LOW'', Some ''NORMAL'', Some ''NORMAL'',
      Some ''BORDERLINE'', Some ''BORDERLINE'', Some ''HIGH'']"
  by (simp add: submit_def getitem_def READING_TYPES_def THRESHOLDS_def classify_def)


lemma THRESHOLDS_total:
  assumes "map_of READING_TYPES d = Some c"
  shows "\<exists>t. map_of THRESHOLDS c = Some t"
  using READING_TYPES_cases [OF assms] by (auto simp add: THRESHOLDS_def)

lemma READING_TYPES_inj:
  assumes "map_of READING_TYPES d = Some c" and "map_of READING_TYPES d' = Some c"
  shows "d' = d"
  using READING_TYPES_cases [OF assms(1)] READING_TYPES_cases [OF assms(2)] by auto

lemma classify_status:
  assumes "40 \<le> v"
  shows "status (classify t d c v) \<in> {''LOW'', ''NORMAL'', ''BORDERLINE'', ''HIGH''}"
  using assms by (simp add: classify_def)

lemma submit_in_range:
  assumes "map_of READING_TYPES d = Some c" and "map_of THRESHOLDS c = Some t"
    and "40 \<le> v" and "v \<le> 400"
  shows "submit now d v st ss =
    Inr \<lparr>csv = save_sugar_history now v c st,
         session = \<lparr>show_results = True, last_result = Some (classify t d c v)\<rparr>,
         shown = [], stopped = False\<rparr>"
  using assms by (simp add: submit_def getitem_def)

text \<open>
  C2. For a display name \<open>d\<close> of reading type \<open>c\<close> and a value from 40 to 400, the
  submit handler never stops and never fails; the result it stores is
  \<open>classify t d c v\<close> for the band \<open>t\<close> of \<open>c\<close>, the same for every history file, session
  state and clock, and for every display name of the same reading type; its status is one
  of LOW, NORMAL, BORDERLINE and HIGH.
\<close>

theorem classification_status_and_purity:
  assumes "map_of READING_TYPES d = Some c" and "map_of READING_TYPES d' = Some c"
    and "40 \<le> v" and "v \<le> 400"
  shows "\<exists>t. map_of THRESHOLDS c = Some t
           \<and> status (classify t d c v) \<in> {''LOW'', ''NORMAL'', ''BORDERLINE'', ''HIGH''}
           \<and> (\<forall>now st ss. \<exists>r. submit now d v st ss = Inr r \<and> \<not> stopped r
                 \<and> session r = \<lparr>show_results = True, last_result = Some (classify t d c v)\<rparr>)
           \<and> (\<forall>now st ss. \<exists>r. submit now d' v st ss = Inr r \<and> \<not> stopped r
                 \<and> session r = \<lparr>show_results = True, last_result = Some (classify t d c v)\<rparr>)"
proof -
  obtain t where t: "map_of THRESHOLDS c = Some t"
    using THRESHOLDS_total [OF assms(1)] by blast
  have same: "d' = d"
    by (rule READING_TYPES_inj [OF assms(1) assms(2)])
  have run: "\<forall>now st ss. \<exists>r. submit now d v st ss = Inr r \<and> \<not> stopped r
      \<and> session r = \<lparr>show_results = True, last_result = Some (classify t d c v)\<rparr>"
    by (simp add: submit_in_range [OF assms(1) t assms(3) assms(4)])
  from t classify_status [OF assms(3)] run same show ?thesis
    by blast
qed

theorem classification_status_and_purity_witness:
  "\<exists>t. map_of THRESHOLDS ''post_lunch'' = Some t
      \<and> status (classify t ''After Lunch'' ''post_lunch'' 130) = ''NORMAL''
      \<and> (\<forall>now st ss. \<exists>r. submit now ''After Lunch'' 130 st ss = Inr r \<and> \<not> stopped r
            \<and> session r = \<lparr>show_results = True,
                 last_result = Some (classify t ''After Lunch'' ''post_lunch'' 130)\<rparr>)"
proof -
  have k: "map_of READING_TYPES ''After Lunch'' = Some ''post_lunch''"
    by (simp add: READING_TYPES_def)
  have lo: "(40::int) \<le> 130" and hi: "(130::int) \<le> 400"
    by simp_all
  from classification_status_and_purity [OF k k lo hi]
  obtain t where t: "map_of THRESHOLDS ''post_lunch'' = Some t"
    and run: "\<forall>now st ss. \<exists>r. submit now ''After Lunch'' 130 st ss = Inr r \<and> \<not> stopped r
            \<and> session r = \<lparr>show_results = True,
                 last_result = Some (classify t ''After Lunch'' ''post_lunch'' 130)\<rparr>"
    by blast
  from t have "status (classify t ''After Lunch'' ''post_lunch'' 130) = ''NORMAL''"
    by (auto simp add: THRESHOLDS_def classify_def)
  with t run show ?thesis by blast
qed

lemma log_rows_save:
  "log_rows (save_sugar_history now v c st)
     = log_rows st @ [\<lparr>datetime = now, reading_type = Some c, sugar = v\<rparr>]"
  by (cases st) (simp_all add: log_rows_def save_sugar_history_def pd_concat_def
      add_reading_type_def new_data_def)

section \<open>Emergencies and validation\<close>

text \<open>
  C3. A positive value below 40 or above 400 is appended to the history file as its last
  row, the session state keeps the earlier result, and the run ends in \<^verbatim>\<open>st.stop()\<close> after
  the critical-low advisory (below 40) or the extremely-high advisory (above 400). The
  instances at 39 and 401 for each of the five reading types follow the theorem.
\<close>

theorem emergency_reading_saved_then_stopped:
  assumes "map_of READING_TYPES d = Some c" and "0 < v" and "v < 40 \<or> 400 < v"
  shows "\<exists>r. submit now d v st ss = Inr r
           \<and> csv r = save_sugar_history now v c st
           \<and> log_rows (csv r) = log_rows st @ [\<lparr>datetime = now, reading_type = Some c, sugar = v\<rparr>]
           \<and> stopped r \<and> session r = ss
           \<and> shown r =
               (if v < 40
                then [St_error (police_light @ '' Critical Low Blood Sugar''),
                      St_write ''Take a fast-acting sugar source immediately and seek medical help.'']
                else [St_error (police_light @ '' Extremely High Blood Sugar''),
                      St_write ''Seek medical attention immediately.''])"
  using assms by (auto simp add: submit_def getitem_def log_rows_save)

theorem emergency_reading_saved_then_stopped_witness:
  "\<forall>now st ss.
     list_all (\<lambda>(d, c).
        (\<exists>r. submit now d 39 st ss = Inr r
           \<and> csv r = save_sugar_history now 39 c st
           \<and> log_rows (csv r) = log_rows st @ [\<lparr>datetime = now, reading_type = Some c, sugar = 39\<rparr>]
           \<and> stopped r \<and> session r = ss
           \<and> shown r = [St_error (police_light @ '' Critical Low Blood Sugar''),
                        St_write ''Take a fast-acting sugar source immediately and seek medical help.''])
      \<and> (\<exists>r. submit now d 401 st ss = Inr r
           \<and> csv r = save_sugar_history now 401 c st
           \<and> log_rows (csv r) = log_rows st @ [\<lparr>datetime = now, reading_type = Some c, sugar = 401\<rparr>]
           \<and> stopped r \<and> session r = ss
           \<and> shown r = [St_error (police_light @ '' Extremely High Blood Sugar''),
                        St_write ''Seek medical attention immediately.'']))
       READING_TYPES"
proof (intro allI)
  fix now st ss
  have dist: "distinct (map fst READING_TYPES)"
    by (simp add: READING_TYPES_def)
  show "list_all (\<lambda>(d, c).
        (\<exists>r. submit now d 39 st ss = Inr r
           \<and> csv r = save_sugar_history now 39 c st
           \<and> log_rows (csv r) = log_rows st @ [\<lparr>datetime = now, reading_type = Some c, sugar = 39\<rparr>]
           \<and> stopped r \<and> session r = ss
           \<and> shown r = [St_error (police_light @ '' Critical Low Blood Sugar''),
                        St_write ''Take a fast-acting sugar source immediately and seek medical help.''])
      \<and> (\<exists>r. submit now d 401 st ss = Inr r
           \<and> csv r = save_sugar_history now 401 c st
           \<and> log_rows (csv r) = log_rows st @ [\<lparr>datetime = now, reading_type = Some c, sugar = 401\<rparr>]
           \<and> stopped r \<and> session r = ss
           \<and> shown r = [St_error (police_light @ '' Extremely High Blood Sugar''),
                        St_write ''Seek medical attention immediately.'']))
       READING_TYPES"
    unfolding list_all_iff
  proof (clarify)
    fix d c
    assume "(d, c) \<in> set READING_TYPES"
    with dist have k: "map_of READING_TYPES d = Some c"
      by (simp add: map_of_is_SomeI)
    have lo: "(0::int) < 39" "(39::int) < 40 \<or> 400 < (39::int)"
      and hi: "(0::int) < 401" "(401::int) < 40 \<or> 400 < (401::int)"
      by simp_all
    from emergency_reading_saved_then_stopped [OF k lo, of now st ss]
         emergency_reading_saved_then_stopped [OF k hi, of now st ss]
    show "(\<exists>r. submit now d 39 st ss = Inr r
           \<and> csv r = save_sugar_history now 39 c st
           \<and> log_rows (csv r) = log_rows st @ [\<lparr>datetime = now, reading_type = Some c, sugar = 39\<rparr>]
           \<and> stopped r \<and> session r = ss
           \<and> shown r = [St_error (police_light @ '' Critical Low Blood Sugar''),
                        St_write ''Take a fast-acting sugar source immediately and seek medical help.''])
      \<and> (\<exists>r. submit now d 401 st ss = Inr r
           \<and> csv r = save_sugar_history now 401 c st
           \<and> log_rows (csv r) = log_rows st @ [\<lparr>datetime = now, reading_type = Some c, sugar = 401\<rparr>]
           \<and> stopped r \<and> session r = ss
           \<and> shown r = [St_error (police_light @ '' Extremely High Blood Sugar''),
                        St_write ''Seek medical attention immediately.''])"
      by simp
  qed
qed

lemma save_changes_store: "save_sugar_history t u k st \<noteq> st"
proof (cases st)
  case None
  then show ?thesis by (simp add: save_sugar_history_def)
next
  case (Some old)
  have "length (rows (pd_concat (add_reading_type old) (new_data t k u))) = Suc (length (rows old))"
    by (simp add: pd_concat_def add_reading_type_def new_data_def)
  then have "pd_concat (add_reading_type old) (new_data t k u) \<noteq> old"
    by auto
  with Some show ?thesis by (simp add: save_sugar_history_def)
qed

text \<open>
  C4. A value of 0 or less ends the run with the validation message before anything is
  saved: the history file and the session state are the ones the run started with, and
  no call of \<^verbatim>\<open>save_sugar_history\<close> leaves the file as it found it.
\<close>

theorem non_positive_reading_rejected:
  assumes "map_of READING_TYPES d = Some c" and "v \<le> 0"
  shows "submit now d v st ss =
           Inr \<lparr>csv = st, session = ss,
                shown = [St_error (cross_mark
                           @ '' Invalid input: Blood sugar must be a positive value.'')],
                stopped = True\<rparr>
         \<and> (\<forall>t u k. save_sugar_history t u k st \<noteq> st)"
  using assms by (simp add: submit_def getitem_def save_changes_store)

theorem non_positive_reading_rejected_witness:
  "\<forall>now st ss. list_all (\<lambda>v. submit now ''Random'' v st ss =
           Inr \<lparr>csv = st, session = ss,
                shown = [St_error (cross_mark
                           @ '' Invalid input: Blood sugar must be a positive value.'')],
                stopped = True\<rparr>) [0, - 5]"
proof -
  have k: "map_of READING_TYPES ''Random'' = Some ''random''"
    by (simp add: READING_TYPES_def)
  have z: "(0::int) \<le> 0" and n: "(- 5::int) \<le> 0"
    by simp_all
  show ?thesis
    using non_positive_reading_rejected [OF k z] non_positive_reading_rejected [OF k n]
    by simp
qed

section \<open>History store\<close>

lemma log_rows_foldl:
  "log_rows (foldl (\<lambda>s (t, v, c). save_sugar_history t v c s) st rs)
     = log_rows st @ map (\<lambda>(t, v, c). \<lparr>datetime = t, reading_type = Some c, sugar = v\<rparr>) rs"
proof (induction rs arbitrary: st)
  case Nil
  show ?case by simp
next
  case (Cons x rs)
  obtain t v c where x: "x = (t, v, c)"
    by (cases x) auto
  show ?case
    by (simp add: x Cons.IH log_rows_save)
qed

lemma rows_get_history_data:
  "rows (get_history_data n st) =
     (if n = 0 then []
      else if 0 < n then drop (length (log_rows st) - nat n) (log_rows st)
      else drop (nat (- n)) (log_rows st))"
  by (cases st) (simp_all add: get_history_data_def tail_def log_rows_def)

text \<open>
  C5. From any state of the history file (missing, without the reading-type column, or
  with it), saving the readings \<open>rs\<close> one after the other and then reading the history with
  a limit of \<open>length rs\<close> returns exactly the rows of \<open>rs\<close>, in the order they were
  saved. When the file does not exist, the history read returns the empty frame for
  every limit.
\<close>

theorem append_then_tail_round_trip:
  "rows (get_history_data (int (length rs))
           (foldl (\<lambda>s (t, v, c). save_sugar_history t v c s) st rs))
     = map (\<lambda>(t, v, c). \<lparr>datetime = t, reading_type = Some c, sugar = v\<rparr>) rs
   \<and> get_history_data n None = \<lparr>columns = [], rows = []\<rparr>"
proof
  show "rows (get_history_data (int (length rs))
           (foldl (\<lambda>s (t, v, c). save_sugar_history t v c s) st rs))
     = map (\<lambda>(t, v, c). \<lparr>datetime = t, reading_type = Some c, sugar = v\<rparr>) rs"
    by (simp add: rows_get_history_data log_rows_foldl)
  show "get_history_data n None = \<lparr>columns = [], rows = []\<rparr>"
    by (simp add: get_history_data_def)
qed

theorem append_then_tail_round_trip_witness:
  "rows (get_history_data 2
      (save_sugar_history ''2024-05-02 07:30:00'' 131 ''post_lunch''
        (save_sugar_history ''2024-05-01 07:30:00'' 95 ''fasting''
          (Some \<lparr>columns = [''datetime'', ''sugar''],
                 rows = [\<lparr>datetime = ''2024-04-30 07:30:00'', reading_type = None, sugar = 88\<rparr>]\<rparr>))))
   = [\<lparr>datetime = ''2024-05-01 07:30:00'', reading_type = Some ''fasting'', sugar = 95\<rparr>,
      \<lparr>datetime = ''2024-05-02 07:30:00'', reading_type = Some ''post_lunch'', sugar = 131\<rparr>]"
  using append_then_tail_round_trip
    [of "[(''2024-05-01 07:30:00'', 95, ''fasting''), (''2024-05-02 07:30:00'', 131, ''post_lunch'')]"
        "Some \<lparr>columns = [''datetime'', ''sugar''],
                 rows = [\<lparr>datetime = ''2024-04-30 07:30:00'', reading_type = None, sugar = 88\<rparr>]\<rparr>"]
  by simp

section \<open>Insight\<close>

lemma insight_last_two:
  "get_smart_insight c (Some \<lparr>columns = cs, rows = xs @ [ra, rb]\<rparr>) =
     (if sugar rb < sugar ra
      then ''Good progress. Today's sugar is lower than yesterday by ''
             @ str_int (int64 (sugar ra - sugar rb)) @ '' mg/dL.''
      else if sugar rb > sugar ra
      then ''Attention needed. Today's sugar is higher than yesterday by ''
             @ str_int (int64 (sugar rb - sugar ra)) @ '' mg/dL.''
      else ''Your sugar level is the same as yesterday. Maintain your routine.'')"
  by (simp add: get_smart_insight_def insight_run_def add_reading_type_def Let_def nth_append)


text \<open>
  C6. The insight text does not depend on the reading type passed in: for every state of
  the file two reading types get the same text, and two files whose last two rows carry
  the same two values get the same text, whatever the reading types, the timestamps and
  the earlier rows.
\<close>

theorem insight_ignores_reading_type:
  "get_smart_insight c1 st = get_smart_insight c2 st
   \<and> get_smart_insight c1
        (Some \<lparr>columns = cs,
               rows = xs @ [\<lparr>datetime = t1, reading_type = k1, sugar = a\<rparr>,
                            \<lparr>datetime = t2, reading_type = k2, sugar = b\<rparr>]\<rparr>)
     = get_smart_insight c2
        (Some \<lparr>columns = cs',
               rows = ys @ [\<lparr>datetime = t1', reading_type = k1', sugar = a\<rparr>,
                            \<lparr>datetime = t2', reading_type = k2', sugar = b\<rparr>]\<rparr>)"
proof
  show "get_smart_insight c1 st = get_smart_insight c2 st"
    by (simp add: get_smart_insight_def insight_run_def)
  show "get_smart_insight c1
        (Some \<lparr>columns = cs,
               rows = xs @ [\<lparr>datetime = t1, reading_type = k1, sugar = a\<rparr>,
                            \<lparr>datetime = t2, reading_type = k2, sugar = b\<rparr>]\<rparr>)
     = get_smart_insight c2
        (Some \<lparr>columns = cs',
               rows = ys @ [\<lparr>datetime = t1', reading_type = k1', sugar = a\<rparr>,
                            \<lparr>datetime = t2', reading_type = k2', sugar = b\<rparr>]\<rparr>)"
    by (simp only: insight_last_two row.simps)
qed






section \<open>Legacy files\<close>

text \<open>
  C8. For a history file without the reading-type column: saving a reading writes every
  old row with reading type \<open>random\<close>, followed by the new row; the history read returns
  its tail with reading type \<open>random\<close> in every row; and the frame the insight holds in
  memory, from which it computes its text, is the file with the column added and \<open>random\<close>
  in every row. None of the three has a failing branch in the source, and the history
  table of a file with the two old columns is drawn without the renaming of the columns
  raising.
\<close>

theorem legacy_rows_default_to_random:
  assumes "''reading_type'' \<notin> set (columns d)"
  shows "(\<exists>d'. save_sugar_history now v c (Some d) = Some d'
            \<and> rows d' = map (\<lambda>r. r\<lparr>reading_type := Some ''random''\<rparr>) (rows d)
                          @ [\<lparr>datetime = now, reading_type = Some c, sugar = v\<rparr>])
       \<and> rows (get_history_data n (Some d))
            = map (\<lambda>r. r\<lparr>reading_type := Some ''random''\<rparr>) (rows (tail n d))
       \<and> list_all (\<lambda>r. reading_type r = Some ''random'') (rows (get_history_data n (Some d)))
       \<and> snd (insight_run c (Some d))
            = Some \<lparr>columns = columns d @ [''reading_type''],
                    rows = map (\<lambda>r. r\<lparr>reading_type := Some ''random''\<rparr>) (rows d)\<rparr>
       \<and> get_smart_insight c (Some d) = fst (insight_run c (Some d))
       \<and> (length (columns d) = 2 \<longrightarrow> (\<exists>view. recent_history (Some d) = Inr view))"
proof (intro conjI)
  show "\<exists>d'. save_sugar_history now v c (Some d) = Some d'
            \<and> rows d' = map (\<lambda>r. r\<lparr>reading_type := Some ''random''\<rparr>) (rows d)
                          @ [\<lparr>datetime = now, reading_type = Some c, sugar = v\<rparr>]"
    using assms
    by (simp add: save_sugar_history_def pd_concat_def add_reading_type_def new_data_def)
  show hist: "rows (get_history_data n (Some d))
            = map (\<lambda>r. r\<lparr>reading_type := Some ''random''\<rparr>) (rows (tail n d))"
    using assms
    by (simp add: get_history_data_def tail_def add_reading_type_def drop_map)
  show "list_all (\<lambda>r. reading_type r = Some ''random'') (rows (get_history_data n (Some d)))"
    by (simp add: hist list_all_iff)
  show "snd (insight_run c (Some d))
            = Some \<lparr>columns = columns d @ [''reading_type''],
                    rows = map (\<lambda>r. r\<lparr>reading_type := Some ''random''\<rparr>) (rows d)\<rparr>"
    using assms
    by (simp add: insight_run_def add_reading_type_def Let_def)
  show "get_smart_insight c (Some d) = fst (insight_run c (Some d))"
    by (simp add: get_smart_insight_def)
  show "length (columns d) = 2 \<longrightarrow> (\<exists>view. recent_history (Some d) = Inr view)"
    using assms
    by (simp add: recent_history_def get_history_data_def tail_def add_reading_type_def Let_def)
qed

theorem legacy_rows_default_to_random_witness:
  "save_sugar_history ''2024-05-02 07:30:00'' 95 ''fasting''
     (Some \<lparr>columns = [''datetime'', ''sugar''],
            rows = [\<lparr>datetime = ''2024-04-30 07:30:00'', reading_type = None, sugar = 88\<rparr>,
                    \<lparr>datetime = ''2024-05-01 07:30:00'', reading_type = None, sugar = 120\<rparr>]\<rparr>)
   = Some \<lparr>columns = [''datetime'', ''sugar'', ''reading_type''],
           rows = [\<lparr>datetime = ''2024-04-30 07:30:00'', reading_type = Some ''random'', sugar = 88\<rparr>,
                   \<lparr>datetime = ''2024-05-01 07:30:00'', reading_type = Some ''random'', sugar = 120\<rparr>,
                   \<lparr>datetime = ''2024-05-02 07:30:00'', reading_type = Some ''fasting'', sugar = 95\<rparr>]\<rparr>
   \<and> rows (get_history_data 10
      (Some \<lparr>columns = [''datetime'', ''sugar''],
            rows = [\<lparr>datetime = ''2024-04-30 07:30:00'', reading_type = None, sugar = 88\<rparr>,
                    \<lparr>datetime = ''2024-05-01 07:30:00'', reading_type = None, sugar = 120\<rparr>]\<rparr>))
     = [\<lparr>datetime = ''2024-04-30 07:30:00'', reading_type = Some ''random'', sugar = 88\<rparr>,
        \<lparr>datetime = ''2024-05-01 07:30:00'', reading_type = Some ''random'', sugar = 120\<rparr>]
   \<and> snd (insight_run ''fasting''
      (Some \<lparr>columns = [''datetime'', ''sugar''],
            rows = [\<lparr>datetime = ''2024-04-30 07:30:00'', reading_type = None, sugar = 88\<rparr>,
                    \<lparr>datetime = ''2024-05-01 07:30:00'', reading_type = None, sugar = 120\<rparr>]\<rparr>))
     = Some \<lparr>columns = [''datetime'', ''sugar'', ''reading_type''],
             rows = [\<lparr>datetime = ''2024-04-30 07:30:00'', reading_type = Some ''random'', sugar = 88\<rparr>,
                     \<lparr>datetime = ''2024-05-01 07:30:00'', reading_type = Some ''random'', sugar = 120\<rparr>]\<rparr>
   \<and> (\<exists>view. recent_history
      (Some \<lparr>columns = [''datetime'', ''sugar''],
            rows = [\<lparr>datetime = ''2024-04-30 07:30:00'', reading_type = None, sugar = 88\<rparr>,
                    \<lparr>datetime = ''2024-05-01 07:30:00'', reading_type = None, sugar = 120\<rparr>]\<rparr>)
     = Inr view)"
proof -
  have legacy: "''reading_type'' \<notin> set (columns
     \<lparr>columns = [''datetime'', ''sugar''],
            rows = [\<lparr>datetime = ''2024-04-30 07:30:00'', reading_type = None, sugar = 88\<rparr>,
                    \<lparr>datetime = ''2024-05-01 07:30:00'', reading_type = None, sugar = 120\<rparr>]\<rparr>)"
    by simp
  have cols: "columns (the (save_sugar_history ''2024-05-02 07:30:00'' 95 ''fasting''
     (Some \<lparr>columns = [''datetime'', ''sugar''],
            rows = [\<lparr>datetime = ''2024-04-30 07:30:00'', reading_type = None, sugar = 88\<rparr>,
                    \<lparr>datetime = ''2024-05-01 07:30:00'', reading_type = None, sugar = 120\<rparr>]\<rparr>)))
     = [''datetime'', ''sugar'', ''reading_type'']"
    by (simp add: save_sugar_history_def pd_concat_def add_reading_type_def new_data_def)
  show ?thesis
    using legacy_rows_default_to_random [OF legacy, of "''2024-05-02 07:30:00''" 95 "''fasting''" 10] cols
    by (auto simp add: tail_def)
qed

section \<open>Trend chart and history table\<close>

lemma bar_color_bands:
  "bar_color v =
     (if v < 70 then ''red'' else if v \<le> 100 then ''green''
      else if v \<le> 125 then ''orange'' else ''red'')"
  by (simp add: bar_color_def)

text \<open>
  C9. When the trend chart is drawn, the rows retained after the optional filter are at
  least two, the bars are the last seven of them (all when there are fewer), and the
  colour of each bar is decided by its value alone: red below 70, green from 70 to 100,
  orange above 100 up to 125, red above 125.
\<close>

theorem trend_colors_fixed_bands:
  assumes "show_sugar_trend f st = Figure cs hs ls"
  shows "let retained =
             (case f of
                None \<Rightarrow> log_rows st
              | Some x \<Rightarrow>
                  if x = [] then log_rows st
                  else filter (\<lambda>r. reading_type r = Some x) (log_rows st));
           recent = drop (length retained - 7) retained
         in 2 \<le> length retained
          \<and> hs = map sugar recent \<and> ls = map datetime recent
          \<and> length cs = length recent \<and> length recent \<le> 7
          \<and> cs = map (\<lambda>v. if v < 70 then ''red'' else if v \<le> 100 then ''green''
                           else if v \<le> 125 then ''orange'' else ''red'') hs"
proof (cases st)
  case None
  with assms show ?thesis
    by (simp add: show_sugar_trend_def)
next
  case (Some d)
  have bands: "bar_color = (\<lambda>v. if v < 70 then ''red'' else if v \<le> 100 then ''green''
                           else if v \<le> 125 then ''orange'' else ''red'')"
    by (rule ext) (rule bar_color_bands)
  from assms Some show ?thesis
    unfolding bands [symmetric]
    by (auto simp add: show_sugar_trend_def log_rows_def tail_def Let_def
        split: option.splits if_splits)
qed


theorem trend_colors_fixed_bands_witness:
  "show_sugar_trend None
     (Some \<lparr>columns = [''datetime'', ''reading_type'', ''sugar''],
            rows = [\<lparr>datetime = ''2024-05-01 07:00:00'', reading_type = Some ''fasting'', sugar = 60\<rparr>,
                    \<lparr>datetime = ''2024-05-02 07:00:00'', reading_type = Some ''fasting'', sugar = 69\<rparr>,
                    \<lparr>datetime = ''2024-05-02 16:00:00'', reading_type = Some ''random'', sugar = 70\<rparr>,
                    \<lparr>datetime = ''2024-05-03 14:00:00'', reading_type = Some ''post_lunch'', sugar = 100\<rparr>,
                    \<lparr>datetime = ''2024-05-03 21:00:00'', reading_type = Some ''post_dinner'', sugar = 101\<rparr>,
                    \<lparr>datetime = ''2024-05-04 11:00:00'', reading_type = Some ''random'', sugar = 125\<rparr>,
                    \<lparr>datetime = ''2024-05-05 07:00:00'', reading_type = Some ''fasting'', sugar = 126\<rparr>,
                    \<lparr>datetime = ''2024-05-05 14:00:00'', reading_type = Some ''post_lunch'', sugar = 130\<rparr>]\<rparr>)
   = Figure [''red'', ''green'', ''green'', ''orange'', ''orange'', ''red'', ''red'']
       [69, 70, 100, 101, 125, 126, 130]
       [''2024-05-02 07:00:00'', ''2024-05-02 16:00:00'', ''2024-05-03 14:00:00'',
        ''2024-05-03 21:00:00'', ''2024-05-04 11:00:00'', ''2024-05-05 07:00:00'',
        ''2024-05-05 14:00:00'']"
  (is "show_sugar_trend None ?F = _")
proof -
  have eq: "show_sugar_trend None ?F
      = Figure (map bar_color [69, 70, 100, 101, 125, 126, 130])
          [69, 70, 100, 101, 125, 126, 130]
          [''2024-05-02 07:00:00'', ''2024-05-02 16:00:00'', ''2024-05-03 14:00:00'',
           ''2024-05-03 21:00:00'', ''2024-05-04 11:00:00'', ''2024-05-05 07:00:00'',
           ''2024-05-05 14:00:00'']"
    by (simp add: show_sugar_trend_def add_reading_type_def tail_def)
  have "map bar_color [69, 70, 100, 101, 125, 126, 130]
      = [''red'', ''green'', ''green'', ''orange'', ''orange'', ''red'', ''red'']"
    using trend_colors_fixed_bands [OF eq]
    by (simp add: Let_def log_rows_def add_reading_type_def)
  with eq show ?thesis
    by simp
qed

lemma history_status_bands:
  "history_status v =
     (if v < 70 then red_circle @ '' Low''
      else if v \<le> 100 then green_circle @ '' Normal''
      else if v \<le> 125 then yellow_circle @ '' Borderline''
      else red_circle @ '' High'')"
  by (simp add: history_status_def)

lemma columns_add_reading_type: "columns (add_reading_type d) \<noteq> []"
  by (auto simp add: add_reading_type_def)

lemma recent_history_rows:
  "recent_history st =
     (if rows (get_history_data 10 st) = []
      then Inr (No_history
             ''No history available yet. Submit your first reading to get started!'')
      else if length (columns (get_history_data 10 st)) \<noteq> 3
      then Inl (ValueError (''Length mismatch: Expected axis has ''
                  @ str_int (int (length (columns (get_history_data 10 st))))
                  @ '' elements, new values have 3 elements''))
      else Inr (Table (map (\<lambda>r. (r, history_status (sugar r)))
                         (rows (get_history_data 10 st)))))"
proof (cases st)
  case None
  then show ?thesis
    by (simp add: recent_history_def get_history_data_def)
next
  case (Some d)
  have cols: "columns (get_history_data 10 (Some d)) \<noteq> []"
    by (simp add: get_history_data_def tail_def columns_add_reading_type)
  have z: "zip xs (map f xs) = map (\<lambda>r. (r, f r)) xs" for f :: "row \<Rightarrow> string" and xs
    by (induction xs) simp_all
  show ?thesis
    using cols by (simp add: recent_history_def Some Let_def z)
qed

lemma rows_after_save:
  "rows (get_history_data 10 (save_sugar_history now v c st)) \<noteq> []
   \<and> last (rows (get_history_data 10 (save_sugar_history now v c st)))
       = \<lparr>datetime = now, reading_type = Some c, sugar = v\<rparr>"
  by (simp add: rows_get_history_data log_rows_save)

text \<open>
  C10. The status of a row of the history table is decided by its value alone: Low below
  70, Normal from 70 to 100, Borderline above 100 up to 125, High above 125. These are
  the bands of the trend chart (green with Normal, orange with Borderline, red with Low
  or High). The table is drawn when the history has a row and its frame has three
  columns; with another number of columns the renaming of the columns raises before any
  status is computed. After a submission of 130 as "After Lunch" the stored result has
  status NORMAL, while the last row of the history table, when the file has three
  columns, is that reading with status High.
\<close>

theorem history_status_ignores_reading_type:
  "history_status v =
     (if v < 70 then red_circle @ '' Low''
      else if v \<le> 100 then green_circle @ '' Normal''
      else if v \<le> 125 then yellow_circle @ '' Borderline''
      else red_circle @ '' High'')
   \<and> (bar_color v = ''green'') = (history_status v = green_circle @ '' Normal'')
   \<and> (bar_color v = ''orange'') = (history_status v = yellow_circle @ '' Borderline'')
   \<and> (bar_color v = ''red'')
       = (history_status v = red_circle @ '' Low'' \<or> history_status v = red_circle @ '' High'')
   \<and> recent_history st =
       (if rows (get_history_data 10 st) = []
        then Inr (No_history
               ''No history available yet. Submit your first reading to get started!'')
        else if length (columns (get_history_data 10 st)) \<noteq> 3
        then Inl (ValueError (''Length mismatch: Expected axis has ''
                    @ str_int (int (length (columns (get_history_data 10 st))))
                    @ '' elements, new values have 3 elements''))
        else Inr (Table (map (\<lambda>r. (r, history_status (sugar r)))
                           (rows (get_history_data 10 st)))))
   \<and> (\<exists>r res. submit now ''After Lunch'' 130 st ss = Inr r
         \<and> csv r = save_sugar_history now 130 ''post_lunch'' st
         \<and> last_result (session r) = Some res \<and> status res = ''NORMAL''
         \<and> (length (columns (get_history_data 10 (csv r))) = 3 \<longrightarrow>
              (\<exists>tb. recent_history (csv r) = Inr (Table tb)
                 \<and> last tb = (\<lparr>datetime = now, reading_type = Some ''post_lunch'', sugar = 130\<rparr>,
                              red_circle @ '' High''))))"
proof (intro conjI)
  show "history_status v =
     (if v < 70 then red_circle @ '' Low''
      else if v \<le> 100 then green_circle @ '' Normal''
      else if v \<le> 125 then yellow_circle @ '' Borderline''
      else red_circle @ '' High'')"
    by (rule history_status_bands)
  show "(bar_color v = ''green'') = (history_status v = green_circle @ '' Normal'')"
    by (simp add: bar_color_def history_status_def red_circle_def green_circle_def
        yellow_circle_def)
  show "(bar_color v = ''orange'') = (history_status v = yellow_circle @ '' Borderline'')"
    by (simp add: bar_color_def history_status_def red_circle_def green_circle_def
        yellow_circle_def)
  show "(bar_color v = ''red'')
       = (history_status v = red_circle @ '' Low'' \<or> history_status v = red_circle @ '' High'')"
    by (simp add: bar_color_def history_status_def red_circle_def green_circle_def
        yellow_circle_def)
  show "recent_history st =
       (if rows (get_history_data 10 st) = []
        then Inr (No_history
               ''No history available yet. Submit your first reading to get started!'')
        else if length (columns (get_history_data 10 st)) \<noteq> 3
        then Inl (ValueError (''Length mismatch: Expected axis has ''
                    @ str_int (int (length (columns (get_history_data 10 st))))
                    @ '' elements, new values have 3 elements''))
        else Inr (Table (map (\<lambda>r. (r, history_status (sugar r)))
                           (rows (get_history_data 10 st)))))"
    by (rule recent_history_rows)
  show "\<exists>r res. submit now ''After Lunch'' 130 st ss = Inr r
         \<and> csv r = save_sugar_history now 130 ''post_lunch'' st
         \<and> last_result (session r) = Some res \<and> status res = ''NORMAL''
         \<and> (length (columns (get_history_data 10 (csv r))) = 3 \<longrightarrow>
              (\<exists>tb. recent_history (csv r) = Inr (Table tb)
                 \<and> last tb = (\<lparr>datetime = now, reading_type = Some ''post_lunch'', sugar = 130\<rparr>,
                              red_circle @ '' High'')))"
  proof -
    have k: "map_of READING_TYPES ''After Lunch'' = Some ''post_lunch''"
      by (simp add: READING_TYPES_def)
    have t: "map_of THRESHOLDS ''post_lunch''
        = Some \<lparr>low = 80, normal_max = 140, borderline_max = 160, warning = 161\<rparr>"
      by (simp add: THRESHOLDS_def)
    have run: "submit now ''After Lunch'' 130 st ss =
      Inr \<lparr>csv = save_sugar_history now 130 ''post_lunch'' st,
           session = \<lparr>show_results = True,
              last_result = Some (classify \<lparr>low = 80, normal_max = 140, borderline_max = 160,
                 warning = 161\<rparr> ''After Lunch'' ''post_lunch'' 130)\<rparr>,
           shown = [], stopped = False\<rparr>"
      by (rule submit_in_range [OF k t]) simp_all
    have st: "status (classify \<lparr>low = 80, normal_max = 140, borderline_max = 160,
                 warning = 161\<rparr> ''After Lunch'' ''post_lunch'' 130) = ''NORMAL''"
      by (simp add: classify_def)
    note after = rows_after_save [of now 130 "''post_lunch''" st]
    have tb: "recent_history (save_sugar_history now 130 ''post_lunch'' st)
       = Inr (Table (map (\<lambda>r. (r, history_status (sugar r)))
           (rows (get_history_data 10 (save_sugar_history now 130 ''post_lunch'' st)))))"
      if "length (columns (get_history_data 10 (save_sugar_history now 130 ''post_lunch'' st))) = 3"
      using after that by (simp add: recent_history_rows)
    have l: "last (map (\<lambda>r. (r, history_status (sugar r)))
           (rows (get_history_data 10 (save_sugar_history now 130 ''post_lunch'' st))))
        = (\<lparr>datetime = now, reading_type = Some ''post_lunch'', sugar = 130\<rparr>,
                      red_circle @ '' High'')"
      using after by (simp add: last_map history_status_def)
    from run st tb l show ?thesis
      by simp
  qed
qed

theorem history_status_ignores_reading_type_witness:
  "\<forall>now ss. \<exists>r res tb. submit now ''After Lunch'' 130 None ss = Inr r
      \<and> last_result (session r) = Some res \<and> status res = ''NORMAL''
      \<and> recent_history (csv r) = Inr (Table tb)
      \<and> tb = [(\<lparr>datetime = now, reading_type = Some ''post_lunch'', sugar = 130\<rparr>,
               red_circle @ '' High'')]"
proof (intro allI)
  fix now ss
  from history_status_ignores_reading_type [where now = now and st = None and ss = ss]
  obtain r res where run: "submit now ''After Lunch'' 130 None ss = Inr r"
    and saved: "csv r = save_sugar_history now 130 ''post_lunch'' None"
    and res: "last_result (session r) = Some res" "status res = ''NORMAL''"
    and table: "length (columns (get_history_data 10 (csv r))) = 3 \<longrightarrow>
              (\<exists>tb. recent_history (csv r) = Inr (Table tb)
                 \<and> last tb = (\<lparr>datetime = now, reading_type = Some ''post_lunch'', sugar = 130\<rparr>,
                              red_circle @ '' High''))"
    by blast
  have three: "length (columns (get_history_data 10 (csv r))) = 3"
    by (simp add: saved save_sugar_history_def new_data_def get_history_data_def tail_def
        add_reading_type_def)
  with table obtain tb where tb: "recent_history (csv r) = Inr (Table tb)"
    by blast
  have "recent_history (csv r)
      = Inr (Table [(\<lparr>datetime = now, reading_type = Some ''post_lunch'', sugar = 130\<rparr>,
               red_circle @ '' High'')])"
    by (simp add: saved recent_history_def save_sugar_history_def new_data_def
        get_history_data_def tail_def add_reading_type_def history_status_def)
  with tb have "tb = [(\<lparr>datetime = now, reading_type = Some ''post_lunch'', sugar = 130\<rparr>,
               red_circle @ '' High'')]"
    by simp
  with run res tb show "\<exists>r res tb. submit now ''After Lunch'' 130 None ss = Inr r
      \<and> last_result (session r) = Some res \<and> status res = ''NORMAL''
      \<and> recent_history (csv r) = Inr (Table tb)
      \<and> tb = [(\<lparr>datetime = now, reading_type = Some ''post_lunch'', sugar = 130\<rparr>,
               red_circle @ '' High'')]"
    by blast
qed

end
